theory Spec2Isabelle
  imports Main "HOL-Library.Word" "HOL-Library.Sublist"
begin

section \<open>JavaScript values used by the command manager\<close>

text \<open>
  A JavaScript string is a sequence of 16-bit code units. Literals of the source that are
  plain ASCII are written \<open>str ''...''\<close>; the ideographic space of \<open>processInput\<close> is the
  code unit \<open>0x3000\<close>.
\<close>

type_synonym jschar = "16 word"
type_synonym jsstring = "jschar list"

definition str :: "string \<Rightarrow> jsstring" where
  "str s = map of_char s"

text \<open>
  A property that holds a string or is absent (\<open>undefined\<close>) is a \<open>jsstring option\<close>.
  In a condition JavaScript takes \<open>undefined\<close> and the empty string as false.
\<close>

definition truthy :: "jsstring option \<Rightarrow> bool" where
  "truthy v = (case v of None \<Rightarrow> False | Some s \<Rightarrow> s \<noteq> [])"

text \<open>\<open>String.prototype.indexOf(pattern)\<close>: index of the first occurrence, or \<open>-1\<close>.\<close>

fun indexOfFrom :: "jsstring \<Rightarrow> jsstring \<Rightarrow> int \<Rightarrow> int" where
  "indexOfFrom [] pat i = (if pat = [] then i else -1)"
| "indexOfFrom (x # xs) pat i =
     (if prefix pat (x # xs) then i else indexOfFrom xs pat (i + 1))"

definition indexOf :: "jsstring \<Rightarrow> jsstring \<Rightarrow> int" where
  "indexOf s pat = indexOfFrom s pat 0"

text \<open>\<open>Array.prototype.indexOf(element)\<close> with strict equality, or \<open>-1\<close>.\<close>

fun arrayIndexOfFrom :: "'a list \<Rightarrow> 'a \<Rightarrow> int \<Rightarrow> int" where
  "arrayIndexOfFrom [] y i = -1"
| "arrayIndexOfFrom (x # xs) y i = (if x = y then i else arrayIndexOfFrom xs y (i + 1))"

definition arrayIndexOf :: "'a list \<Rightarrow> 'a \<Rightarrow> int" where
  "arrayIndexOf xs y = arrayIndexOfFrom xs y 0"

text \<open>
  \<open>String.prototype.replace(pattern, replacement)\<close> with a string pattern: only the first
  occurrence is replaced. (The replacement used by the source, a single space, has no
  \<open>$\<close> patterns.)
\<close>

fun replace :: "jsstring \<Rightarrow> jsstring \<Rightarrow> jsstring \<Rightarrow> jsstring" where
  "replace [] pat rep = (if pat = [] then rep else [])"
| "replace (x # xs) pat rep =
     (if prefix pat (x # xs) then rep @ drop (length pat) (x # xs)
      else x # replace xs pat rep)"

text \<open>\<open>String.prototype.substring(start, end)\<close>: both indices are clamped, then ordered.\<close>

definition substring :: "jsstring \<Rightarrow> int \<Rightarrow> int \<Rightarrow> jsstring" where
  "substring s a b =
     (let n = int (length s);
          a' = max 0 (min a n);
          b' = max 0 (min b n);
          lo = min a' b';
          hi = max a' b'
      in take (nat (hi - lo)) (drop (nat lo) s))"

text \<open>
  \<open>String.prototype.trim()\<close> strips the ECMAScript WhiteSpace and LineTerminator code
  points from both ends.
\<close>

definition isWhiteSpace :: "jschar \<Rightarrow> bool" where
  "isWhiteSpace c =
     (c \<in> set [0x9, 0xA, 0xB, 0xC, 0xD, 0x20, 0xA0, 0x1680,
                0x2000, 0x2001, 0x2002, 0x2003, 0x2004, 0x2005, 0x2006, 0x2007,
                0x2008, 0x2009, 0x200A, 0x2028, 0x2029, 0x202F, 0x205F, 0x3000, 0xFEFF])"

definition trim :: "jsstring \<Rightarrow> jsstring" where
  "trim s = rev (dropWhile isWhiteSpace (rev (dropWhile isWhiteSpace s)))"

text \<open>
  \<open>String.prototype.toLowerCase()\<close> follows the Unicode case mappings; the functions
  below take it as the parameter \<open>toLowerCase\<close>. On strings of ASCII characters it is
  \<open>asciiToLowerCase\<close>, which the concrete examples use.
\<close>

definition asciiLower :: "jschar \<Rightarrow> jschar" where
  "asciiLower c = (if 0x41 \<le> c \<and> c \<le> 0x5A then c + 0x20 else c)"

definition asciiToLowerCase :: "jsstring \<Rightarrow> jsstring" where
  "asciiToLowerCase s = map asciiLower s"

text \<open>The values a handler can resolve to, as far as \<open>typeof\<close> tells them apart.\<close>

datatype js_value =
    JSUndefined
  | JSNull
  | JSBoolean bool
  | JSNumber int
  | JSString jsstring
  | JSObject

fun typeof :: "js_value \<Rightarrow> jsstring" where
  "typeof JSUndefined = str ''undefined''"
| "typeof JSNull = str ''object''"
| "typeof (JSBoolean b) = str ''boolean''"
| "typeof (JSNumber n) = str ''number''"
| "typeof (JSString s) = str ''string''"
| "typeof JSObject = str ''object''"

text \<open>
  A thrown value or rejection reason. \<open>Nullish\<close> is \<open>null\<close> or \<open>undefined\<close>, on which
  every property read throws. \<open>ErrObj\<close> is any other value, with the properties that
  \<open>handleCommandError\<close> reads: \<open>logDescription\<close>, \<open>publicMessage\<close>, \<open>message\<close>
  (\<open>Some\<close> a string; \<open>None\<close> when the property is absent or holds a value without an
  \<open>indexOf\<close> method, so that \<open>message.indexOf\<close> is not callable), whether it is an instance
  of \<open>PublicError\<close>, and \<open>internalErr\<close>. A \<open>message\<close> that is not a string and has an
  \<open>indexOf\<close> of its own (an array) is not among the values modelled.
\<close>

datatype thrown =
    Nullish
  | ErrObj (logDescription: "jsstring option") (publicMessage: "jsstring option")
      (message: "jsstring option") (isPublicError: bool) (internalErr: "thrown option")

datatype js_exception = TypeError

text \<open>\<open>if (internalErr)\<close>: an object is true, \<open>undefined\<close> and \<open>null\<close> are false.\<close>

fun truthyErr :: "thrown option \<Rightarrow> bool" where
  "truthyErr None = False"
| "truthyErr (Some Nullish) = False"
| "truthyErr (Some (ErrObj ld pm m p ie)) = True"

record message =
  content :: jsstring
  channel :: nat

record config =
  missingPermissionsErrorMessage :: "jsstring option"
  genericErrorMessage :: "jsstring option"

text \<open>
  The calls made on the collaborators, in order: \<open>msg.channel.createMessage\<close>,
  \<open>logger.logInputReaction\<close> and \<open>logger.logFailure\<close>.
\<close>

datatype effect =
    CreateMessage nat jsstring
  | LogInputReaction jsstring message jsstring bool js_value
  | LogFailure jsstring jsstring "thrown option"

section \<open>The error classifier\<close>

text \<open>
  \<open>handleCommandError(msg, err, config, logger)\<close>. The result is \<open>Inl TypeError\<close> where
  a property read of the source throws (\<open>err.logDescription\<close> on a nullish \<open>err\<close>,
  \<open>err.message.indexOf\<close> on a missing \<open>message\<close>; both before any call on a collaborator),
  and otherwise the trace extended by the calls made.
\<close>

fun handleCommandError ::
  "message \<Rightarrow> thrown \<Rightarrow> config \<Rightarrow> effect list \<Rightarrow> js_exception + effect list" where
  "handleCommandError msg Nullish config tr = Inl TypeError"
| "handleCommandError msg (ErrObj ld pm m p ie) config tr =
     (let loggerTitle = str ''COMMAND'';
          errDescription = ld;
          publicMessage = pm
      in if \<not> truthy publicMessage \<and> m = None then Inl TypeError
         else
           let missingPermissions =
                 (\<not> truthy publicMessage
                  \<and> (case m of None \<Rightarrow> False
                      | Some text \<Rightarrow> indexOf text (str ''Missing Permissions'') \<noteq> -1)
                  \<and> truthy (missingPermissionsErrorMessage config));
               publicMessage1 =
                 (if missingPermissions then missingPermissionsErrorMessage config
                  else publicMessage);
               errDescription1 =
                 (if missingPermissions \<and> \<not> truthy errDescription
                  then Some (str ''Missing permissions'') else errDescription);
               errDescription2 =
                 (if \<not> truthy errDescription1
                  then str ''Exception or promise rejection''
                  else (case errDescription1 of Some d \<Rightarrow> d | None \<Rightarrow> []));
               publicMessage2 =
                 (if \<not> truthy publicMessage1 then genericErrorMessage config
                  else publicMessage1);
               internalErr = (if p then ie else Some (ErrObj ld pm m p ie))
           in Inr (tr
                @ (case publicMessage2 of
                     None \<Rightarrow> []
                   | Some text \<Rightarrow> if text = [] then [] else [CreateMessage (channel msg) text])
                @ [LogInputReaction loggerTitle msg [] False (JSString errDescription2)]
                @ (if truthyErr internalErr
                   then [LogFailure loggerTitle
                           (str ''Command '' @ [0x27] @ content msg @ [0x27]
                            @ str '' threw an exception or returned a promise that rejected.'')
                           internalErr]
                   else [])))"

section \<open>Commands and the registry scan\<close>

text \<open>
  What a handler does when \<open>command.handle(bot, msg, suffix, config)\<close> is called and its
  value is passed to \<open>Promise.resolve\<close>: it throws during the call, or the promise resolves
  to a value, or it rejects, or it never settles.
\<close>

datatype handler_outcome =
    Throws thrown
  | Resolves js_value
  | Rejects thrown
  | Pending

text \<open>
  The class \<open>Command\<close> (\<open>./command.js\<close>) is not among the sources; a command is the
  properties the manager reads: \<open>aliases\<close>, \<open>uniqueId\<close> (\<open>None\<close> when absent) and
  \<open>handle\<close>.
\<close>

record command =
  aliases :: "jsstring list"
  uniqueId :: "jsstring option"
  handle :: "message \<Rightarrow> jsstring \<Rightarrow> config \<Rightarrow> handler_outcome"

text \<open>
  \<open>getDuplicateAlias(command, otherCommands)\<close>: the first alias of \<open>command\<close> that some
  command in \<open>otherCommands\<close> has; \<open>None\<close> is the \<open>undefined\<close> of falling off the loop.
\<close>

fun getDuplicateAliasIn :: "jsstring list \<Rightarrow> command list \<Rightarrow> jsstring option" where
  "getDuplicateAliasIn [] otherCommands = None"
| "getDuplicateAliasIn (alias # rest) otherCommands =
     (if find (\<lambda>cmd. arrayIndexOf (aliases cmd) alias \<noteq> -1) otherCommands \<noteq> None
      then Some alias
      else getDuplicateAliasIn rest otherCommands)"

definition getDuplicateAlias :: "command \<Rightarrow> command list \<Rightarrow> jsstring option" where
  "getDuplicateAlias command otherCommands =
     getDuplicateAliasIn (aliases command) otherCommands"


section \<open>The settings tree\<close>

datatype settings_node =
    SETTING (name: jsstring) (description: jsstring) (valueType: jsstring)
      (defaultDatabaseFacingValue: bool)
  | CATEGORY (name: jsstring) (children: "settings_node list")

text \<open>
  \<open>userCommand.aliases[0]\<close> inside a string concatenation or template: an empty array
  gives \<open>undefined\<close>, which prints as the text "undefined".
\<close>

definition firstAliasText :: "command \<Rightarrow> jsstring" where
  "firstAliasText userCommand =
     (case aliases userCommand of [] \<Rightarrow> str ''undefined'' | a # _ \<Rightarrow> a)"

definition createSettingsHierarchyForCommand :: "command \<Rightarrow> settings_node" where
  "createSettingsHierarchyForCommand userCommand =
     SETTING
       (firstAliasText userCommand @ str ''_enabled'')
       (str ''This setting controls whether the '' @ firstAliasText userCommand
          @ str '' command (and all of its aliases) is allowed to be used or not.'')
       (str ''BOOLEAN'')
       True"

definition createSettingsHierarchyForCommands :: "command list \<Rightarrow> settings_node list" where
  "createSettingsHierarchyForCommands userCommands =
     map (\<lambda>command. createSettingsHierarchyForCommand command) userCommands"

definition createSettingsCategoryForCommands :: "command list \<Rightarrow> settings_node" where
  "createSettingsCategoryForCommands userCommands =
     CATEGORY (str ''commands'') (createSettingsHierarchyForCommands userCommands)"

section \<open>The command manager\<close>

text \<open>
  The lambda the host may pass as \<open>reloadAction\<close>; the manager only tests its presence.
  The fields of the class are written without their trailing underscore (\<open>commands\<close> is
  \<open>this.commands_\<close>, and so on), which a record field cannot end with.
\<close>

datatype reload_action = ReloadAction

record manager =
  commands :: "command list"
  reloadAction :: "reload_action option"
  directory :: jsstring
  settingsCategory :: "settings_node option"

definition constructor :: "jsstring \<Rightarrow> reload_action option \<Rightarrow> manager" where
  "constructor dir action =
     \<lparr>commands = [], reloadAction = action, directory = dir,
      settingsCategory = None\<rparr>"

text \<open>
  The built-in commands (\<open>./commands/allow_command.js\<close> and its siblings) are not among the
  sources. They are parameters: the command each \<open>new Command(new ...Command(...))\<close>
  yields, from the user commands where the source passes them. Their construction is taken
  to succeed, as is every call on the logger and on the channel.
\<close>

record builtins =
  allowCommand :: "command list \<Rightarrow> command"
  unrestrictCommand :: "command list \<Rightarrow> command"
  banCommand :: "command list \<Rightarrow> command"
  settingsCommand :: command
  reloadCommand :: "reload_action \<Rightarrow> command"

definition FailedToLoadMessageStart :: jsstring where
  "FailedToLoadMessageStart = str ''Failed to load command from file: ''"

text \<open>
  The loop of \<open>load\<close> over the command files. \<open>construct commandFile\<close> is the outcome of
  \<open>new Command(reload(commandFile))\<close>: the exception caught by the \<open>try\<close>, or the command.
  \<open>cmds\<close> is \<open>this.commands_\<close>, \<open>tr\<close> the trace of logger calls.
\<close>

fun loadCommandFiles ::
  "(jsstring \<Rightarrow> thrown + command) \<Rightarrow> jsstring list \<Rightarrow> command list \<Rightarrow> effect list
   \<Rightarrow> command list \<times> effect list" where
  "loadCommandFiles construct [] cmds tr = (cmds, tr)"
| "loadCommandFiles construct (commandFile # rest) cmds tr =
     (let loggerTitle = str ''COMMAND MANAGER'' in
      case construct commandFile of
        Inl e \<Rightarrow>
          loadCommandFiles construct rest cmds
            (tr @ [LogFailure loggerTitle (FailedToLoadMessageStart @ commandFile) (Some e)])
      | Inr command \<Rightarrow>
          if truthy (uniqueId command)
             \<and> find (\<lambda>cmd. uniqueId cmd = uniqueId command) cmds \<noteq> None
          then loadCommandFiles construct rest cmds
                 (tr @ [LogFailure loggerTitle
                          (FailedToLoadMessageStart @ commandFile @ str ''. Error: uniqueId: ''
                           @ (case uniqueId command of Some u \<Rightarrow> u | None \<Rightarrow> [])
                           @ str '' not unique'')
                          None])
          else
            let duplicateAlias = getDuplicateAlias command cmds in
            if truthy duplicateAlias
            then loadCommandFiles construct rest cmds
                   (tr @ [LogFailure loggerTitle
                            (FailedToLoadMessageStart @ commandFile @ str ''. Error: alias: ''
                             @ (case duplicateAlias of Some a \<Rightarrow> a | None \<Rightarrow> [])
                             @ str '' is not unique'')
                            None])
            else loadCommandFiles construct rest (cmds @ [command]) tr)"

text \<open>
  \<open>load(settingsManager, config)\<close>. \<open>files\<close> is how the promise of
  \<open>FileSystemUtils.getFilesInDirectory(this.directory_)\<close> settles: \<open>Inl\<close> a rejection,
  \<open>Inr\<close> the file names. The assignment \<open>this.commands_ = []\<close> runs before the promise is
  awaited, so it takes effect on both paths.
\<close>

definition load ::
  "(jsstring \<Rightarrow> thrown + command) \<Rightarrow> builtins \<Rightarrow> thrown + jsstring list \<Rightarrow> manager
   \<Rightarrow> effect list \<Rightarrow> manager \<times> effect list" where
  "load construct b files this tr =
     (let loggerTitle = str ''COMMAND MANAGER'';
          this0 = this\<lparr>commands := []\<rparr>
      in case files of
           Inl err \<Rightarrow>
             (this0, tr @ [LogFailure loggerTitle (str ''Error loading commands.'') (Some err)])
         | Inr commandFiles \<Rightarrow>
             (case loadCommandFiles construct commandFiles (commands this0) tr of
                (userCommands, tr1) \<Rightarrow>
                  let cmds = userCommands
                        @ [allowCommand b userCommands, unrestrictCommand b userCommands,
                           banCommand b userCommands, settingsCommand b];
                      this1 = this0\<lparr>commands := cmds,
                                    settingsCategory :=
                                      Some (createSettingsCategoryForCommands userCommands)\<rparr>
                  in (case reloadAction this1 of
                        None \<Rightarrow> (this1, tr1)
                      | Some action \<Rightarrow>
                          (this1\<lparr>commands := commands this1 @ [reloadCommand b action]\<rparr>,
                           tr1))))"

definition collectSettingsCategories :: "manager \<Rightarrow> settings_node option list" where
  "collectSettingsCategories this = [settingsCategory this]"

section \<open>Dispatch\<close>

text \<open>
  What one call of \<open>processInput\<close> amounts to: \<open>completion\<close> is the value returned, or the
  exception that leaves the call; \<open>invoked\<close> the command whose handler was called, with the
  suffix passed; \<open>trace\<close> the trace extended by the calls on logger and channel, also those
  made when the handler's promise settles; \<open>unhandledRejection\<close> an exception thrown inside
  the promise's \<open>catch\<close> callback, which nothing handles.
\<close>

record dispatch =
  completion :: "js_exception + bool"
  invoked :: "(command \<times> jsstring) option"
  trace :: "effect list"
  unhandledRejection :: "js_exception option"

text \<open>Lines 146 to 154 of the source: the text the aliases are compared with.\<close>

definition normalizedContent :: "message \<Rightarrow> jsstring" where
  "normalizedContent msg = replace (content msg) [0x3000] [0x20]"

definition commandTextOf :: "(jsstring \<Rightarrow> jsstring) \<Rightarrow> message \<Rightarrow> jsstring" where
  "commandTextOf toLowerCase msg =
     (let msgContent = normalizedContent msg;
          spaceIndex = indexOf msgContent [0x20];
          commandText = (if spaceIndex = -1 then msgContent
                         else substring msgContent 0 spaceIndex)
      in toLowerCase commandText)"

text \<open>Lines 158 to 161: the suffix handed to the matched command.\<close>

definition suffixOf :: "message \<Rightarrow> jsstring" where
  "suffixOf msg =
     (let msgContent = normalizedContent msg;
          spaceIndex = indexOf msgContent [0x20]
      in if spaceIndex \<noteq> -1
         then trim (substring msgContent (spaceIndex + 1) (int (length msgContent)))
         else [])"

text \<open>The \<open>for\<close> loop of \<open>processInput\<close> over \<open>this.commands_\<close>.\<close>

fun scanCommands ::
  "command list \<Rightarrow> jsstring \<Rightarrow> message \<Rightarrow> config \<Rightarrow> effect list \<Rightarrow> dispatch" where
  "scanCommands [] commandText msg config tr =
     \<lparr>completion = Inr False, invoked = None, trace = tr, unhandledRejection = None\<rparr>"
| "scanCommands (command # rest) commandText msg config tr =
     (if arrayIndexOf (aliases command) commandText \<noteq> -1
      then
        let loggerTitle = str ''COMMAND'';
            suffix = suffixOf msg
        in (case handle command msg suffix config of
              Throws err \<Rightarrow>
                (case handleCommandError msg err config tr of
                   Inl ex \<Rightarrow>
                     \<lparr>completion = Inl ex, invoked = Some (command, suffix), trace = tr,
                      unhandledRejection = None\<rparr>
                 | Inr tr' \<Rightarrow>
                     \<lparr>completion = Inr True, invoked = Some (command, suffix), trace = tr',
                      unhandledRejection = None\<rparr>)
            | Resolves result \<Rightarrow>
                let success = (typeof result \<noteq> typeof (JSString [])) in
                \<lparr>completion = Inr True, invoked = Some (command, suffix),
                 trace = tr @ [LogInputReaction loggerTitle msg [] success result],
                 unhandledRejection = None\<rparr>
            | Rejects err \<Rightarrow>
                (case handleCommandError msg err config tr of
                   Inl ex \<Rightarrow>
                     \<lparr>completion = Inr True, invoked = Some (command, suffix), trace = tr,
                      unhandledRejection = Some ex\<rparr>
                 | Inr tr' \<Rightarrow>
                     \<lparr>completion = Inr True, invoked = Some (command, suffix), trace = tr',
                      unhandledRejection = None\<rparr>)
            | Pending \<Rightarrow>
                \<lparr>completion = Inr True, invoked = Some (command, suffix), trace = tr,
                 unhandledRejection = None\<rparr>)
      else scanCommands rest commandText msg config tr)"

definition processInput ::
  "(jsstring \<Rightarrow> jsstring) \<Rightarrow> manager \<Rightarrow> message \<Rightarrow> config \<Rightarrow> effect list \<Rightarrow> dispatch" where
  "processInput toLowerCase this msg config tr =
     scanCommands (commands this) (commandTextOf toLowerCase msg) msg config tr"

section \<open>Example inputs\<close>

text \<open>Concrete commands, messages and errors for the instances below.\<close>

definition exampleConfig :: config where
  "exampleConfig =
     \<lparr>missingPermissionsErrorMessage = Some (str ''no perms''), genericErrorMessage = None\<rparr>"

definition pingCommand :: command where
  "pingCommand =
     \<lparr>aliases = [str ''}ping''], uniqueId = None,
      handle = (\<lambda>msg suffix config. Resolves (JSString (str ''pong'')))\<rparr>"

definition helpCommand :: command where
  "helpCommand =
     \<lparr>aliases = [str ''}help'', str ''}h''], uniqueId = Some (str ''help''),
      handle = (\<lambda>msg suffix config. Resolves JSUndefined)\<rparr>"

definition exampleManager :: manager where
  "exampleManager =
     \<lparr>commands = [helpCommand, pingCommand], reloadAction = None,
      directory = str ''./commands'', settingsCategory = None\<rparr>"

definition pingMessage :: message where
  "pingMessage = \<lparr>content = str ''}PING'', channel = 1\<rparr>"

definition chatMessage :: message where
  "chatMessage = \<lparr>content = str ''hello there'', channel = 1\<rparr>"

definition permissionError :: thrown where
  "permissionError =
     ErrObj None None (Some (str ''DiscordRESTError [50013]: Missing Permissions'')) False None"

definition echoCommand :: command where
  "echoCommand =
     \<lparr>aliases = [str ''}echo''], uniqueId = None,
      handle = (\<lambda>msg suffix config. Resolves (JSString suffix))\<rparr>"

definition echoMessage :: message where
  "echoMessage = \<lparr>content = str ''}echo'' @ [0x3000] @ str ''hello'', channel = 1\<rparr>"

definition paddedMessage :: message where
  "paddedMessage =
     \<lparr>content = str ''}Echo'' @ [0x3000, 0x20, 0x9] @ str ''hello  world''
                 @ [0x3000, 0xA, 0x20],
      channel = 1\<rparr>"

definition echoManager :: manager where
  "echoManager =
     \<lparr>commands = [echoCommand], reloadAction = None, directory = str ''./commands'',
      settingsCategory = None\<rparr>"

definition pingCopy :: command where
  "pingCopy =
     \<lparr>aliases = [str ''}p'', str ''}ping''], uniqueId = None,
      handle = (\<lambda>msg suffix config. Resolves JSUndefined)\<rparr>"

definition helpCopy :: command where
  "helpCopy =
     \<lparr>aliases = [str ''}help''], uniqueId = Some (str ''help''),
      handle = (\<lambda>msg suffix config. Resolves JSUndefined)\<rparr>"

definition moduleNotFound :: thrown where
  "moduleNotFound = ErrObj None None (Some (str ''Cannot find module'')) False None"

definition exampleConstruct :: "jsstring \<Rightarrow> thrown + command" where
  "exampleConstruct commandFile =
     (if commandFile = str ''help.js'' then Inr helpCommand
      else if commandFile = str ''ping.js'' then Inr pingCommand
      else if commandFile = str ''ping_copy.js'' then Inr pingCopy
      else if commandFile = str ''help_copy.js'' then Inr helpCopy
      else Inl moduleNotFound)"

definition adminCommand :: "string \<Rightarrow> command" where
  "adminCommand alias =
     \<lparr>aliases = [str alias], uniqueId = None,
      handle = (\<lambda>msg suffix config. Resolves JSUndefined)\<rparr>"

definition exampleBuiltins :: builtins where
  "exampleBuiltins =
     \<lparr>allowCommand = (\<lambda>userCommands. adminCommand '']allow''),
      unrestrictCommand = (\<lambda>userCommands. adminCommand '']unrestrict''),
      banCommand = (\<lambda>userCommands. adminCommand '']ban''),
      settingsCommand = adminCommand '']settings'',
      reloadCommand = (\<lambda>action. adminCommand '']reload'')\<rparr>"

definition enumerationError :: thrown where
  "enumerationError =
     ErrObj None None (Some (str ''ENOENT: no such file or directory'')) False None"

definition boomCommand :: command where
  "boomCommand =
     \<lparr>aliases = [str ''}boom''], uniqueId = None,
      handle = (\<lambda>msg suffix config. Throws (ErrObj None None None False None))\<rparr>"

definition rejectCommand :: command where
  "rejectCommand =
     \<lparr>aliases = [str ''}reject''], uniqueId = None,
      handle = (\<lambda>msg suffix config. Rejects Nullish)\<rparr>"

definition boomManager :: manager where
  "boomManager =
     \<lparr>commands = [boomCommand, rejectCommand], reloadAction = None,
      directory = str ''./commands'', settingsCategory = None\<rparr>"

definition boomMessage :: message where
  "boomMessage = \<lparr>content = str ''}boom'', channel = 1\<rparr>"

definition rejectMessage :: message where
  "rejectMessage = \<lparr>content = str ''}reject now'', channel = 1\<rparr>"

section \<open>Facts about the string and array operations\<close>

lemma arrayIndexOfFrom_found: "0 \<le> i \<Longrightarrow> (arrayIndexOfFrom xs y i \<noteq> -1) = (y \<in> set xs)"
  by (induction xs arbitrary: i) auto

lemma arrayIndexOf_iff: "(arrayIndexOf xs y \<noteq> -1) = (y \<in> set xs)"
  by (simp add: arrayIndexOf_def arrayIndexOfFrom_found)

lemma indexOfFrom_found: "0 \<le> i \<Longrightarrow> (indexOfFrom s pat i \<noteq> -1) = sublist pat s"
proof (induction s arbitrary: i)
  case Nil
  then show ?case by auto
next
  case (Cons x xs)
  then show ?case by (auto simp: sublist_Cons_right)
qed

lemma indexOf_found: "(indexOf s pat \<noteq> -1) = (\<exists>pre post. s = pre @ pat @ post)"
  by (simp add: indexOf_def indexOfFrom_found sublist_def)

lemma indexOfFrom_single:
  "indexOfFrom s [c] i =
     (if c \<in> set s then i + int (length (takeWhile (\<lambda>x. x \<noteq> c) s)) else -1)"
  by (induction s arbitrary: i) auto

lemma indexOf_single:
  "indexOf s [c] = (if c \<in> set s then int (length (takeWhile (\<lambda>x. x \<noteq> c) s)) else -1)"
  by (simp add: indexOf_def indexOfFrom_single)

lemma replace_single:
  "replace s [c] [d] =
     (if c \<in> set s then takeWhile (\<lambda>x. x \<noteq> c) s @ d # tl (dropWhile (\<lambda>x. x \<noteq> c) s) else s)"
  by (induction s) auto

lemma substring_prefix: "k \<le> length s \<Longrightarrow> substring s 0 (int k) = take k s"
  by (simp add: substring_def Let_def min_def max_def)

lemma substring_suffix: "k \<le> length s \<Longrightarrow> substring s (int k) (int (length s)) = drop k s"
  by (simp add: substring_def Let_def min_def max_def)

lemma find_alias_iff:
  "(find (\<lambda>cmd. arrayIndexOf (aliases cmd) a \<noteq> -1) cs \<noteq> None) = (\<exists>cmd\<in>set cs. a \<in> set (aliases cmd))"
  by (auto simp: arrayIndexOf_iff find_None_iff)

lemma getDuplicateAliasIn_find:
  "getDuplicateAliasIn as cs = find (\<lambda>a. \<exists>cmd\<in>set cs. a \<in> set (aliases cmd)) as"
  by (induction as) (simp_all add: find_alias_iff del: not_None_eq)

lemma typeof_string_iff:
  "(typeof result \<noteq> typeof (JSString [])) = (case result of JSString s \<Rightarrow> False | _ \<Rightarrow> True)"
  by (cases result) (simp_all add: str_def)

lemmas parse_defs = commandTextOf_def normalizedContent_def suffixOf_def indexOf_def
  substring_def trim_def isWhiteSpace_def asciiToLowerCase_def asciiLower_def str_def Let_def

lemma ping_text: "commandTextOf asciiToLowerCase pingMessage = str ''}ping''"
  by (simp add: pingMessage_def parse_defs)

lemma ping_suffix: "suffixOf pingMessage = []"
  by (simp add: pingMessage_def parse_defs)

lemma takeWhile_all: "c \<notin> set s \<Longrightarrow> takeWhile (\<lambda>x. x \<noteq> c) s = s"
  by (induction s) auto

lemma length_takeWhile_first:
  "c \<in> set s \<Longrightarrow> length (takeWhile (\<lambda>x. x \<noteq> c) s) < length s"
  by (induction s) auto

lemma commandTextOf_split:
  "commandTextOf toLowerCase msg =
     toLowerCase (takeWhile (\<lambda>x. x \<noteq> 0x20) (normalizedContent msg))"
proof (cases "0x20 \<in> set (normalizedContent msg)")
  case True
  have "length (takeWhile (\<lambda>x. x \<noteq> 0x20) (normalizedContent msg))
          \<le> length (normalizedContent msg)"
    by (rule length_takeWhile_le)
  then have "substring (normalizedContent msg) 0
               (int (length (takeWhile (\<lambda>x. x \<noteq> 0x20) (normalizedContent msg))))
             = takeWhile (\<lambda>x. x \<noteq> 0x20) (normalizedContent msg)"
    by (simp add: substring_prefix takeWhile_eq_take [symmetric])
  with True show ?thesis
    by (simp add: commandTextOf_def indexOf_single Let_def)
next
  case False
  then show ?thesis
    by (simp add: commandTextOf_def indexOf_single Let_def takeWhile_all)
qed

lemma suffixOf_split:
  "suffixOf msg =
     (if 0x20 \<in> set (normalizedContent msg)
      then trim (tl (dropWhile (\<lambda>x. x \<noteq> 0x20) (normalizedContent msg)))
      else [])"
proof (cases "0x20 \<in> set (normalizedContent msg)")
  case True
  let ?n = "normalizedContent msg"
  let ?k = "length (takeWhile (\<lambda>x. x \<noteq> 0x20) ?n)"
  have "?k < length ?n"
    using True by (rule length_takeWhile_first)
  then have "substring ?n (int ?k + 1) (int (length ?n)) = drop (Suc ?k) ?n"
    using substring_suffix [of "Suc ?k" ?n] by (simp add: add.commute)
  also have "\<dots> = tl (dropWhile (\<lambda>x. x \<noteq> 0x20) ?n)"
    by (simp add: drop_Suc drop_tl dropWhile_eq_drop)
  finally show ?thesis
    using True by (simp add: suffixOf_def indexOf_single Let_def)
next
  case False
  then show ?thesis
    by (simp add: suffixOf_def indexOf_single Let_def)
qed

lemma first_space_split:
  "c \<in> set s \<Longrightarrow> s = takeWhile (\<lambda>x. x \<noteq> c) s @ c # tl (dropWhile (\<lambda>x. x \<noteq> c) s)"
  by (induction s) auto

lemma getDuplicateAlias_find:
  "getDuplicateAlias candidate others =
     find (\<lambda>alias. \<exists>cmd\<in>set others. alias \<in> set (aliases cmd)) (aliases candidate)"
  by (simp add: getDuplicateAlias_def getDuplicateAliasIn_find)



lemma load_failure:
  "load construct b (Inl err) this tr =
     (this\<lparr>commands := []\<rparr>,
      tr @ [LogFailure (str ''COMMAND MANAGER'') (str ''Error loading commands.'') (Some err)])"
  by (simp add: load_def)

lemma load_success:
  assumes "loadCommandFiles construct files [] tr = (userCommands, tr')"
  shows "load construct b (Inr files) this tr =
     (this\<lparr>commands := userCommands
               @ [allowCommand b userCommands, unrestrictCommand b userCommands,
                  banCommand b userCommands, settingsCommand b]
               @ (case reloadAction this of None \<Rightarrow> [] | Some action \<Rightarrow> [reloadCommand b action]),
             settingsCategory := Some (createSettingsCategoryForCommands userCommands)\<rparr>,
      tr')"
  using assms by (simp add: load_def Let_def split: option.split)

lemma firstAliasText_hd: "aliases c \<noteq> [] \<Longrightarrow> firstAliasText c = hd (aliases c)"
  by (cases "aliases c") (simp_all add: firstAliasText_def)


lemma isWhiteSpace_iff:
  "isWhiteSpace c =
     ((0x9 \<le> c \<and> c \<le> 0xD) \<or> c = 0x20 \<or> c = 0xA0 \<or> c = 0x1680
      \<or> (0x2000 \<le> c \<and> c \<le> 0x200A) \<or> c = 0x2028 \<or> c = 0x2029 \<or> c = 0x202F
      \<or> c = 0x205F \<or> c = 0x3000 \<or> c = 0xFEFF)"
proof -
  have a: "(0x9 \<le> c \<and> c \<le> 0xD) = (c \<in> {0x9, 0xA, 0xB, 0xC, 0xD})"
    by (simp add: word_le_nat_alt word_unat_eq_iff) arith
  have b: "(0x2000 \<le> c \<and> c \<le> 0x200A) =
      (c \<in> {0x2000, 0x2001, 0x2002, 0x2003, 0x2004, 0x2005, 0x2006, 0x2007,
              0x2008, 0x2009, 0x200A})"
    by (simp add: word_le_nat_alt word_unat_eq_iff) arith
  show ?thesis
    unfolding a b by (auto simp: isWhiteSpace_def)
qed

lemma trim_decomposition:
  "s = takeWhile isWhiteSpace s @ trim s
       @ rev (takeWhile isWhiteSpace (rev (dropWhile isWhiteSpace s)))"
proof -
  let ?t = "dropWhile isWhiteSpace s"
  have "rev (dropWhile isWhiteSpace (rev ?t)) @ rev (takeWhile isWhiteSpace (rev ?t))
        = rev (takeWhile isWhiteSpace (rev ?t) @ dropWhile isWhiteSpace (rev ?t))"
    by (simp only: rev_append)
  also have "\<dots> = rev (rev ?t)"
    by (simp only: takeWhile_dropWhile_id)
  also have "\<dots> = ?t"
    by (simp only: rev_rev_ident)
  finally have "trim s @ rev (takeWhile isWhiteSpace (rev ?t)) = ?t"
    by (simp only: trim_def)
  moreover have "takeWhile isWhiteSpace s @ ?t = s"
    by (simp only: takeWhile_dropWhile_id)
  ultimately show ?thesis by simp
qed

lemma last_dropWhile_nonempty: "dropWhile P xs \<noteq> [] \<Longrightarrow> last (dropWhile P xs) = last xs"
  by (induction xs) (auto split: if_splits)

lemma trim_ends:
  assumes "trim s \<noteq> []"
  shows "\<not> isWhiteSpace (hd (trim s)) \<and> \<not> isWhiteSpace (last (trim s))"
proof -
  let ?t = "dropWhile isWhiteSpace s"
  let ?u = "dropWhile isWhiteSpace (rev ?t)"
  have u: "?u \<noteq> []" using assms by (simp add: trim_def)
  have t: "?t \<noteq> []"
  proof
    assume "?t = []"
    then have "?u = []" by (simp only: rev.simps dropWhile.simps)
    with u show False by (simp only: not_True_eq_False simp_thms)
  qed
  have "last (trim s) = hd ?u"
    using u by (simp add: trim_def last_rev)
  moreover have "\<not> isWhiteSpace (hd ?u)"
    using u by (rule hd_dropWhile)
  moreover have "hd (trim s) = last ?u"
    using u by (simp add: trim_def hd_rev)
  moreover have "last ?u = last (rev ?t)"
    using u by (rule last_dropWhile_nonempty)
  moreover have "last (rev ?t) = hd ?t"
    using t by (simp add: last_rev)
  moreover have "\<not> isWhiteSpace (hd ?t)"
    using t by (rule hd_dropWhile)
  ultimately show ?thesis by simp
qed

lemma padded_text: "commandTextOf asciiToLowerCase paddedMessage = str ''}echo''"
  by (simp add: paddedMessage_def parse_defs)

lemma padded_suffix: "suffixOf paddedMessage = str ''hello  world''"
  by (simp add: paddedMessage_def parse_defs)

lemma trim_split:
  "\<exists>lead trail. s = lead @ trim s @ trail
     \<and> (\<forall>c\<in>set lead. isWhiteSpace c) \<and> (\<forall>c\<in>set trail. isWhiteSpace c)"
proof (intro exI conjI)
  show "s = takeWhile isWhiteSpace s @ trim s
       @ rev (takeWhile isWhiteSpace (rev (dropWhile isWhiteSpace s)))"
    by (rule trim_decomposition)
  show "\<forall>c\<in>set (takeWhile isWhiteSpace s). isWhiteSpace c"
    by (auto dest: set_takeWhileD)
  show "\<forall>c\<in>set (rev (takeWhile isWhiteSpace (rev (dropWhile isWhiteSpace s)))).
          isWhiteSpace c"
    by (auto dest: set_takeWhileD)
qed



section \<open>The registry scan of \<open>processInput\<close>\<close>

lemma scanCommands_no_match:
  "\<forall>c\<in>set cs. t \<notin> set (aliases c) \<Longrightarrow>
   scanCommands cs t msg config tr =
     \<lparr>completion = Inr False, invoked = None, trace = tr, unhandledRejection = None\<rparr>"
  by (induction cs) (simp_all add: arrayIndexOf_iff)

lemma scanCommands_invoked:
  "invoked (scanCommands cs t msg config tr) =
     map_option (\<lambda>c. (c, suffixOf msg)) (find (\<lambda>c. t \<in> set (aliases c)) cs)"
  by (induction cs)
     (simp_all add: arrayIndexOf_iff Let_def split: handler_outcome.split sum.split)

lemma scanCommands_completion_False:
  "(completion (scanCommands cs t msg config tr) = Inr False) =
     (find (\<lambda>c. t \<in> set (aliases c)) cs = None)"
  by (induction cs)
     (simp_all add: arrayIndexOf_iff Let_def split: handler_outcome.split sum.split)

lemma scanCommands_find_Some:
  "find (\<lambda>c. t \<in> set (aliases c)) cs = Some c \<Longrightarrow>
   scanCommands cs t msg config tr = scanCommands [c] t msg config tr"
proof (induction cs)
  case Nil
  then show ?case by simp
next
  case (Cons a cs)
  show ?case
  proof (cases "t \<in> set (aliases a)")
    case True
    with Cons.prems have "a = c" by simp
    with True show ?thesis by (simp add: arrayIndexOf_iff)
  next
    case False
    with Cons.prems have "find (\<lambda>c. t \<in> set (aliases c)) cs = Some c" by simp
    then have "scanCommands cs t msg config tr = scanCommands [c] t msg config tr"
      by (rule Cons.IH)
    with False show ?thesis by (simp add: arrayIndexOf_iff)
  qed
qed

section \<open>Dispatch properties\<close>

text \<open>
  Claim C6. Matching compares the lower-cased command text with the aliases by exact
  equality and takes the first command, in registration order, that has it: when the
  registry is \<open>pre @ c # post\<close>, no command of \<open>pre\<close> has the command text among its
  aliases and \<open>c\<close> has it, then \<open>c\<close> is the command invoked and the input is claimed.
  The command text is the lower-cased first token of the message, so the letter case of the
  input does not matter. The instance after it is the input "}PING" against the registered
  alias "}ping".
\<close>

theorem C6_first_match_in_registration_order:
  assumes "commands this = pre @ c # post"
    and "\<forall>c'\<in>set pre. commandTextOf toLowerCase msg \<notin> set (aliases c')"
    and "commandTextOf toLowerCase msg \<in> set (aliases c)"
  shows "invoked (processInput toLowerCase this msg config tr) = Some (c, suffixOf msg)
       \<and> completion (processInput toLowerCase this msg config tr) \<noteq> Inr False
       \<and> commandTextOf toLowerCase msg =
           toLowerCase (takeWhile (\<lambda>x. x \<noteq> 0x20) (normalizedContent msg))"
proof -
  have "find (\<lambda>c. commandTextOf toLowerCase msg \<in> set (aliases c)) (commands this) = Some c"
    using assms by (auto simp: find_Some_iff nth_append intro!: exI [of _ "length pre"])
  then have "invoked (processInput toLowerCase this msg config tr) = Some (c, suffixOf msg)
       \<and> completion (processInput toLowerCase this msg config tr) \<noteq> Inr False"
    by (simp add: processInput_def scanCommands_invoked scanCommands_completion_False)
  then show ?thesis
    using commandTextOf_split [of toLowerCase msg] by simp
qed

theorem C6_witness:
  "commandTextOf asciiToLowerCase pingMessage = str ''}ping''
   \<and> invoked (processInput asciiToLowerCase exampleManager pingMessage exampleConfig [])
       = Some (pingCommand, [])
   \<and> completion (processInput asciiToLowerCase exampleManager pingMessage exampleConfig [])
       \<noteq> Inr False"
proof -
  have h1: "commands exampleManager = [helpCommand] @ pingCommand # []"
    by (simp add: exampleManager_def)
  have h2: "\<forall>c'\<in>set [helpCommand].
              commandTextOf asciiToLowerCase pingMessage \<notin> set (aliases c')"
    by (simp add: ping_text helpCommand_def str_def)
  have h3: "commandTextOf asciiToLowerCase pingMessage \<in> set (aliases pingCommand)"
    by (simp add: ping_text pingCommand_def)
  note r = C6_first_match_in_registration_order [OF h1 h2 h3, of exampleConfig "[]"]
  show ?thesis
    using r [THEN conjunct1] r [THEN conjunct2, THEN conjunct1]
    by (simp add: ping_text ping_suffix)
qed

text \<open>
  Claim C9. When no registered command has the command text among its aliases,
  \<open>processInput\<close> returns false, invokes no handler, and leaves the trace of logger and
  channel calls as it was.
\<close>

theorem C9_unmatched_input_no_effects:
  assumes "\<forall>c\<in>set (commands this). commandTextOf toLowerCase msg \<notin> set (aliases c)"
  shows "processInput toLowerCase this msg config tr =
     \<lparr>completion = Inr False, invoked = None, trace = tr, unhandledRejection = None\<rparr>"
  using assms by (simp add: processInput_def scanCommands_no_match)

theorem C9_witness:
  "processInput asciiToLowerCase exampleManager chatMessage exampleConfig [] =
     \<lparr>completion = Inr False, invoked = None, trace = [], unhandledRejection = None\<rparr>"
  using C9_unmatched_input_no_effects
    [of exampleManager asciiToLowerCase chatMessage exampleConfig "[]"]
  by (simp add: chatMessage_def exampleManager_def helpCommand_def pingCommand_def parse_defs)

text \<open>
  Claim C10. When the matched command's handler resolves to \<open>result\<close>, the only call made
  is one \<open>logInputReaction\<close> with \<open>result\<close> as its description; its success flag is false
  exactly when \<open>result\<close> is a string.
\<close>

theorem C10_resolved_handler_logged_once:
  assumes "find (\<lambda>c. commandTextOf toLowerCase msg \<in> set (aliases c)) (commands this) = Some c"
    and "handle c msg (suffixOf msg) config = Resolves result"
  shows "processInput toLowerCase this msg config tr =
     \<lparr>completion = Inr True, invoked = Some (c, suffixOf msg),
      trace = tr @ [LogInputReaction (str ''COMMAND'') msg []
                      (case result of JSString s \<Rightarrow> False | _ \<Rightarrow> True) result],
      unhandledRejection = None\<rparr>"
proof -
  have hit: "commandTextOf toLowerCase msg \<in> set (aliases c)"
    using assms(1) by (auto simp: find_Some_iff)
  have "processInput toLowerCase this msg config tr =
        scanCommands [c] (commandTextOf toLowerCase msg) msg config tr"
    unfolding processInput_def by (rule scanCommands_find_Some [OF assms(1)])
  also have "\<dots> = \<lparr>completion = Inr True, invoked = Some (c, suffixOf msg),
      trace = tr @ [LogInputReaction (str ''COMMAND'') msg []
                      (typeof result \<noteq> typeof (JSString [])) result],
      unhandledRejection = None\<rparr>"
    using hit assms(2) by (simp add: arrayIndexOf_iff Let_def)
  finally show ?thesis by (simp only: typeof_string_iff)
qed

theorem C10_witness:
  "processInput asciiToLowerCase exampleManager pingMessage exampleConfig [] =
     \<lparr>completion = Inr True, invoked = Some (pingCommand, []),
      trace = [LogInputReaction (str ''COMMAND'') pingMessage [] False (JSString (str ''pong''))],
      unhandledRejection = None\<rparr>"
  using C10_resolved_handler_logged_once
    [of asciiToLowerCase pingMessage exampleManager pingCommand exampleConfig
        "JSString (str ''pong'')" "[]"]
  by (simp add: ping_text ping_suffix exampleManager_def helpCommand_def pingCommand_def str_def)

section \<open>Error classification\<close>

text \<open>
  Claim C8. For an error without a public message whose message text contains
  "Missing Permissions", under a configuration whose \<open>missingPermissionsErrorMessage\<close> is a
  non-empty string, the classifier sends that configured text to the channel and logs the
  reaction with the error's own log description, or with "Missing permissions" when the error
  has none.
\<close>

theorem C8_missing_permissions_classification:
  assumes "\<not> truthy pm"
    and "text = pre @ str ''Missing Permissions'' @ post"
    and "missingPermissionsErrorMessage config = Some configured"
    and "configured \<noteq> []"
  shows "handleCommandError msg (ErrObj ld pm (Some text) p ie) config tr =
     Inr (tr
       @ [CreateMessage (channel msg) configured,
          LogInputReaction (str ''COMMAND'') msg [] False
            (JSString (case ld of
                         None \<Rightarrow> str ''Missing permissions''
                       | Some d \<Rightarrow> if d = [] then str ''Missing permissions'' else d))]
       @ (if truthyErr (if p then ie else Some (ErrObj ld pm (Some text) p ie))
          then [LogFailure (str ''COMMAND'')
                  (str ''Command '' @ [0x27] @ content msg @ [0x27]
                   @ str '' threw an exception or returned a promise that rejected.'')
                  (if p then ie else Some (ErrObj ld pm (Some text) p ie))]
          else []))"
proof -
  have found: "indexOf text (str ''Missing Permissions'') \<noteq> -1"
    using assms(2) by (subst indexOf_found) blast
  have cfg: "truthy (missingPermissionsErrorMessage config)"
    using assms(3,4) by (simp add: truthy_def)
  have ne: "str ''Missing permissions'' \<noteq> []"
    by (simp add: str_def)
  show ?thesis
    using assms(1,3,4) found cfg ne
    by (cases ld) (simp_all add: Let_def truthy_def)
qed

theorem C8_witness:
  "handleCommandError pingMessage permissionError exampleConfig [] =
     Inr [CreateMessage 1 (str ''no perms''),
          LogInputReaction (str ''COMMAND'') pingMessage [] False
            (JSString (str ''Missing permissions'')),
          LogFailure (str ''COMMAND'')
            (str ''Command '' @ [0x27] @ str ''}PING'' @ [0x27]
             @ str '' threw an exception or returned a promise that rejected.'')
            (Some permissionError)]"
  using C8_missing_permissions_classification
    [of None "str ''DiscordRESTError [50013]: Missing Permissions''"
        "str ''DiscordRESTError [50013]: ''" "[]" exampleConfig "str ''no perms''"
        pingMessage None False None "[]"]
  by (simp add: permissionError_def exampleConfig_def pingMessage_def truthy_def str_def)

section \<open>Parsing the message\<close>

text \<open>
  Claim C5. \<open>processInput\<close> replaces the first ideographic space (U+3000) of the message
  text by an ordinary space. If the resulting text has a space, it is split at the first one:
  the command text is the part before it, lower-cased, and the suffix is the part after it,
  trimmed: what is left of that part once the white space at its two ends is taken away, so
  that a suffix that is not empty neither begins nor ends with white space. White space is
  the ECMAScript set: U+0009 to U+000D, U+0020, U+00A0, U+1680, U+2000 to U+200A, U+2028,
  U+2029, U+202F, U+205F, U+3000 and U+FEFF. Otherwise the command text is the whole text,
  lower-cased, and the suffix is empty. The command text is what the aliases are compared
  with and the suffix is what the matched command receives. The message "}echo", U+3000,
  "hello" gives the command text "}echo" and the suffix "hello"; the message "}Echo", U+3000,
  space, tab, "hello  world", U+3000, line feed, space gives "}echo" and "hello  world".
\<close>

theorem C5_command_text_and_trimmed_suffix:
  "normalizedContent msg =
     (if 0x3000 \<in> set (content msg)
      then takeWhile (\<lambda>x. x \<noteq> 0x3000) (content msg)
           @ 0x20 # tl (dropWhile (\<lambda>x. x \<noteq> 0x3000) (content msg))
      else content msg)
   \<and> (if 0x20 \<in> set (normalizedContent msg)
       then normalizedContent msg =
              takeWhile (\<lambda>x. x \<noteq> 0x20) (normalizedContent msg)
              @ 0x20 # tl (dropWhile (\<lambda>x. x \<noteq> 0x20) (normalizedContent msg))
          \<and> commandTextOf toLowerCase msg =
              toLowerCase (takeWhile (\<lambda>x. x \<noteq> 0x20) (normalizedContent msg))
          \<and> suffixOf msg = trim (tl (dropWhile (\<lambda>x. x \<noteq> 0x20) (normalizedContent msg)))
          \<and> (\<exists>lead trail.
                tl (dropWhile (\<lambda>x. x \<noteq> 0x20) (normalizedContent msg))
                  = lead @ suffixOf msg @ trail
                \<and> (\<forall>c\<in>set lead. isWhiteSpace c) \<and> (\<forall>c\<in>set trail. isWhiteSpace c))
       else commandTextOf toLowerCase msg = toLowerCase (normalizedContent msg)
          \<and> suffixOf msg = [])
   \<and> (suffixOf msg \<noteq> [] \<longrightarrow>
        \<not> isWhiteSpace (hd (suffixOf msg)) \<and> \<not> isWhiteSpace (last (suffixOf msg)))
   \<and> (\<forall>c. isWhiteSpace c =
          ((0x9 \<le> c \<and> c \<le> 0xD) \<or> c = 0x20 \<or> c = 0xA0 \<or> c = 0x1680
           \<or> (0x2000 \<le> c \<and> c \<le> 0x200A) \<or> c = 0x2028 \<or> c = 0x2029 \<or> c = 0x202F
           \<or> c = 0x205F \<or> c = 0x3000 \<or> c = 0xFEFF))
   \<and> processInput toLowerCase this msg config tr =
       scanCommands (commands this) (commandTextOf toLowerCase msg) msg config tr
   \<and> invoked (processInput toLowerCase this msg config tr) =
       map_option (\<lambda>c. (c, suffixOf msg))
         (find (\<lambda>c. commandTextOf toLowerCase msg \<in> set (aliases c)) (commands this))
   \<and> commandTextOf asciiToLowerCase echoMessage = str ''}echo''
   \<and> suffixOf echoMessage = str ''hello''
   \<and> commandTextOf asciiToLowerCase paddedMessage = str ''}echo''
   \<and> suffixOf paddedMessage = str ''hello  world''"
proof -
  let ?n = "normalizedContent msg"
  let ?rest = "tl (dropWhile (\<lambda>x. x \<noteq> 0x20) ?n)"
  have norm: "normalizedContent msg =
     (if 0x3000 \<in> set (content msg)
      then takeWhile (\<lambda>x. x \<noteq> 0x3000) (content msg)
           @ 0x20 # tl (dropWhile (\<lambda>x. x \<noteq> 0x3000) (content msg))
      else content msg)"
    by (simp add: normalizedContent_def replace_single)
  have split: "if 0x20 \<in> set ?n
       then ?n = takeWhile (\<lambda>x. x \<noteq> 0x20) ?n @ 0x20 # ?rest
          \<and> commandTextOf toLowerCase msg = toLowerCase (takeWhile (\<lambda>x. x \<noteq> 0x20) ?n)
          \<and> suffixOf msg = trim ?rest
          \<and> (\<exists>lead trail. ?rest = lead @ suffixOf msg @ trail
                \<and> (\<forall>c\<in>set lead. isWhiteSpace c) \<and> (\<forall>c\<in>set trail. isWhiteSpace c))
       else commandTextOf toLowerCase msg = toLowerCase ?n \<and> suffixOf msg = []"
  proof (cases "0x20 \<in> set ?n")
    case True
    then have s: "suffixOf msg = trim ?rest"
      by (simp add: suffixOf_split)
    have "\<exists>lead trail. ?rest = lead @ suffixOf msg @ trail
            \<and> (\<forall>c\<in>set lead. isWhiteSpace c) \<and> (\<forall>c\<in>set trail. isWhiteSpace c)"
      unfolding s by (rule trim_split)
    with True s show ?thesis
      using first_space_split [of "0x20" ?n]
      by (simp add: commandTextOf_split)
  next
    case False
    then show ?thesis
      by (simp add: commandTextOf_split suffixOf_split takeWhile_all)
  qed
  have ends: "suffixOf msg \<noteq> [] \<longrightarrow>
        \<not> isWhiteSpace (hd (suffixOf msg)) \<and> \<not> isWhiteSpace (last (suffixOf msg))"
  proof (cases "0x20 \<in> set ?n")
    case True
    then have "suffixOf msg = trim ?rest"
      by (simp add: suffixOf_split)
    then show ?thesis
      using trim_ends [of ?rest] by simp
  next
    case False
    then show ?thesis by (simp add: suffixOf_split)
  qed
  have ws: "\<forall>c. isWhiteSpace c =
          ((0x9 \<le> c \<and> c \<le> 0xD) \<or> c = 0x20 \<or> c = 0xA0 \<or> c = 0x1680
           \<or> (0x2000 \<le> c \<and> c \<le> 0x200A) \<or> c = 0x2028 \<or> c = 0x2029 \<or> c = 0x202F
           \<or> c = 0x205F \<or> c = 0x3000 \<or> c = 0xFEFF)"
    using isWhiteSpace_iff by blast
  have ex1: "commandTextOf asciiToLowerCase echoMessage = str ''}echo''"
    by (simp add: echoMessage_def parse_defs)
  have ex2: "suffixOf echoMessage = str ''hello''"
    by (simp add: echoMessage_def parse_defs)
  have disp: "processInput toLowerCase this msg config tr =
       scanCommands (commands this) (commandTextOf toLowerCase msg) msg config tr
   \<and> invoked (processInput toLowerCase this msg config tr) =
       map_option (\<lambda>c. (c, suffixOf msg))
         (find (\<lambda>c. commandTextOf toLowerCase msg \<in> set (aliases c)) (commands this))"
    by (simp only: processInput_def scanCommands_invoked simp_thms)
  from norm split ends ws disp ex1 ex2 padded_text padded_suffix
  show ?thesis by (intro conjI) (erule conjunct1 conjunct2 | assumption)+
qed

theorem C5_trimmed_witness:
  "processInput asciiToLowerCase echoManager paddedMessage exampleConfig [] =
     \<lparr>completion = Inr True, invoked = Some (echoCommand, str ''hello  world''),
      trace = [LogInputReaction (str ''COMMAND'') paddedMessage [] False
                 (JSString (str ''hello  world''))],
      unhandledRejection = None\<rparr>
   \<and> isWhiteSpace 0x3000 \<and> \<not> isWhiteSpace 0x68"
proof -
  note r = C5_command_text_and_trimmed_suffix
             [of paddedMessage asciiToLowerCase echoManager exampleConfig "[]"]
  have p: "processInput asciiToLowerCase echoManager paddedMessage exampleConfig [] =
       scanCommands (commands echoManager) (commandTextOf asciiToLowerCase paddedMessage)
         paddedMessage exampleConfig []"
    using r by (elim conjE)
  have t: "commandTextOf asciiToLowerCase paddedMessage = str ''}echo''"
    using r by (elim conjE)
  have s: "suffixOf paddedMessage = str ''hello  world''"
    using r by (elim conjE)
  have w: "\<forall>c. isWhiteSpace c =
          ((0x9 \<le> c \<and> c \<le> 0xD) \<or> c = 0x20 \<or> c = 0xA0 \<or> c = 0x1680
           \<or> (0x2000 \<le> c \<and> c \<le> 0x200A) \<or> c = 0x2028 \<or> c = 0x2029 \<or> c = 0x202F
           \<or> c = 0x205F \<or> c = 0x3000 \<or> c = 0xFEFF)"
    using r by (elim conjE)
  have w1: "isWhiteSpace 0x3000" by (simp add: w)
  have w2: "\<not> isWhiteSpace 0x68" by (simp add: w)
  have main: "processInput asciiToLowerCase echoManager paddedMessage exampleConfig [] =
     \<lparr>completion = Inr True, invoked = Some (echoCommand, str ''hello  world''),
      trace = [LogInputReaction (str ''COMMAND'') paddedMessage [] False
                 (JSString (str ''hello  world''))],
      unhandledRejection = None\<rparr>"
    unfolding p t
    by (simp add: s echoManager_def echoCommand_def arrayIndexOf_iff Let_def)
  from main w1 w2 show ?thesis by (intro conjI)
qed

section \<open>Loading\<close>

text \<open>
  Claim C1, as the code has it. \<open>load\<close> empties the registry before the directory is
  enumerated. When the enumeration fails, the failure is logged as "Error loading commands."
  and the manager is left with the empty registry; the commands published before are gone,
  and the settings category is the only part kept. When it succeeds, the registry becomes the
  user commands that loaded, in load order, followed by the built-in commands.
\<close>

theorem C1_enumeration_failure_resets_registry:
  "load construct b (Inl err) this tr =
     (this\<lparr>commands := []\<rparr>,
      tr @ [LogFailure (str ''COMMAND MANAGER'') (str ''Error loading commands.'') (Some err)])
   \<and> commands (fst (load construct b (Inr files) this tr)) =
       fst (loadCommandFiles construct files [] tr)
       @ [allowCommand b (fst (loadCommandFiles construct files [] tr)),
          unrestrictCommand b (fst (loadCommandFiles construct files [] tr)),
          banCommand b (fst (loadCommandFiles construct files [] tr)),
          settingsCommand b]
       @ (case reloadAction this of None \<Rightarrow> [] | Some action \<Rightarrow> [reloadCommand b action])"
proof -
  obtain userCommands tr' where
    l: "loadCommandFiles construct files [] tr = (userCommands, tr')"
    by (cases "loadCommandFiles construct files [] tr")
  show ?thesis
    by (simp add: load_failure load_success [OF l] l)
qed

text \<open>
  A manager that answers "}PING" no longer does so after a load whose enumeration failed: the
  registry before the load is not the registry after it.
\<close>

theorem C1_counterexample:
  "commands (fst (load exampleConstruct exampleBuiltins (Inl enumerationError) exampleManager []))
     \<noteq> commands exampleManager
   \<and> completion (processInput asciiToLowerCase exampleManager pingMessage exampleConfig [])
     = Inr True
   \<and> completion
       (processInput asciiToLowerCase
          (fst (load exampleConstruct exampleBuiltins (Inl enumerationError) exampleManager []))
          pingMessage exampleConfig [])
     = Inr False"
  by (simp add: load_failure exampleManager_def processInput_def ping_text
        helpCommand_def pingCommand_def arrayIndexOf_iff str_def)

theorem C1_witness:
  "fst (load exampleConstruct exampleBuiltins (Inl enumerationError) exampleManager []) =
     \<lparr>commands = [], reloadAction = None, directory = str ''./commands'',
      settingsCategory = None\<rparr>"
  using C1_enumeration_failure_resets_registry
    [of exampleConstruct exampleBuiltins enumerationError exampleManager "[]" "[]"]
  by (simp add: exampleManager_def)






text \<open>
  Claim C7. After a load whose enumeration succeeded, with \<open>userCommands\<close> the commands
  registered from the files (each with at least one alias), the settings category is the
  node "commands" whose children are, in registration order, one BOOLEAN setting per user
  command, named by the command's first alias followed by "_enabled", with default value
  true. The built-in commands follow the user commands in the registry and have no child.
\<close>

theorem C7_settings_tree_of_user_commands:
  assumes "loadCommandFiles construct files [] tr = (userCommands, tr')"
    and "\<forall>c\<in>set userCommands. aliases c \<noteq> []"
  shows "settingsCategory (fst (load construct b (Inr files) this tr)) =
           Some (CATEGORY (str ''commands'')
             (map (\<lambda>c. SETTING
                          (hd (aliases c) @ str ''_enabled'')
                          (str ''This setting controls whether the '' @ hd (aliases c)
                           @ str '' command (and all of its aliases) is allowed to be used or not.'')
                          (str ''BOOLEAN'')
                          True)
                  userCommands))
       \<and> commands (fst (load construct b (Inr files) this tr)) =
           userCommands
           @ [allowCommand b userCommands, unrestrictCommand b userCommands,
              banCommand b userCommands, settingsCommand b]
           @ (case reloadAction this of None \<Rightarrow> [] | Some action \<Rightarrow> [reloadCommand b action])
       \<and> collectSettingsCategories (fst (load construct b (Inr files) this tr)) =
           [Some (createSettingsCategoryForCommands userCommands)]"
proof -
  have leaf: "createSettingsHierarchyForCommands userCommands =
      map (\<lambda>c. SETTING
                  (hd (aliases c) @ str ''_enabled'')
                  (str ''This setting controls whether the '' @ hd (aliases c)
                   @ str '' command (and all of its aliases) is allowed to be used or not.'')
                  (str ''BOOLEAN'')
                  True)
          userCommands"
    unfolding createSettingsHierarchyForCommands_def
    using assms(2)
    by (intro map_cong refl) (simp add: createSettingsHierarchyForCommand_def firstAliasText_hd)
  show ?thesis
    by (simp add: load_success [OF assms(1)] createSettingsCategoryForCommands_def leaf
          collectSettingsCategories_def)
qed

theorem C7_witness:
  "settingsCategory
     (fst (load exampleConstruct exampleBuiltins (Inr [str ''help.js'', str ''ping.js''])
             (constructor (str ''./commands'') (Some ReloadAction)) []))
     = Some (CATEGORY (str ''commands'')
         [SETTING (str ''}help_enabled'')
            (str ''This setting controls whether the }help command (and all of its aliases) is allowed to be used or not.'')
            (str ''BOOLEAN'') True,
          SETTING (str ''}ping_enabled'')
            (str ''This setting controls whether the }ping command (and all of its aliases) is allowed to be used or not.'')
            (str ''BOOLEAN'') True])
   \<and> commands
       (fst (load exampleConstruct exampleBuiltins (Inr [str ''help.js'', str ''ping.js''])
               (constructor (str ''./commands'') (Some ReloadAction)) []))
     = [helpCommand, pingCommand, adminCommand '']allow'', adminCommand '']unrestrict'',
        adminCommand '']ban'', adminCommand '']settings'', adminCommand '']reload'']"
proof -
  have l: "loadCommandFiles exampleConstruct [str ''help.js'', str ''ping.js''] [] []
             = ([helpCommand, pingCommand], [])"
    by (simp add: exampleConstruct_def helpCommand_def pingCommand_def getDuplicateAlias_find
          truthy_def str_def)
  have a: "\<forall>c\<in>set [helpCommand, pingCommand]. aliases c \<noteq> []"
    by (simp add: helpCommand_def pingCommand_def)
  show ?thesis
    using C7_settings_tree_of_user_commands
      [OF l a, of exampleBuiltins "constructor (str ''./commands'') (Some ReloadAction)"]
    by (simp add: helpCommand_def pingCommand_def exampleBuiltins_def constructor_def str_def)
qed

section \<open>Errors that the classifier does not survive\<close>

text \<open>
  Claim C2 at two inputs. A handler that throws a value with neither \<open>publicMessage\<close> nor
  \<open>message\<close>: \<open>handleCommandError\<close> throws a TypeError at \<open>err.message.indexOf\<close>, which
  leaves \<open>processInput\<close> from inside its \<open>catch\<close> block, with nothing logged. A handler whose
  promise rejects with \<open>undefined\<close>: \<open>handleCommandError\<close> throws at \<open>err.logDescription\<close>
  inside the promise's \<open>catch\<close> callback, an unhandled rejection, with nothing logged.
\<close>

theorem C2_error_without_message_escapes:
  "handleCommandError boomMessage (ErrObj None None None False None) exampleConfig []
     = Inl TypeError
   \<and> processInput asciiToLowerCase boomManager boomMessage exampleConfig []
     = \<lparr>completion = Inl TypeError, invoked = Some (boomCommand, []), trace = [],
        unhandledRejection = None\<rparr>
   \<and> handleCommandError rejectMessage Nullish exampleConfig [] = Inl TypeError
   \<and> processInput asciiToLowerCase boomManager rejectMessage exampleConfig []
     = \<lparr>completion = Inr True, invoked = Some (rejectCommand, str ''now''), trace = [],
        unhandledRejection = Some TypeError\<rparr>"
proof -
  have t1: "commandTextOf asciiToLowerCase boomMessage = str ''}boom''"
    by (simp add: boomMessage_def parse_defs)
  have s1: "suffixOf boomMessage = []"
    by (simp add: boomMessage_def parse_defs)
  have t2: "commandTextOf asciiToLowerCase rejectMessage = str ''}reject''"
    by (simp add: rejectMessage_def parse_defs)
  have s2: "suffixOf rejectMessage = str ''now''"
    by (simp add: rejectMessage_def parse_defs)
  have h1: "handleCommandError boomMessage (ErrObj None None None False None) exampleConfig []
     = Inl TypeError"
    by (simp add: truthy_def)
  show ?thesis
    using h1
    by (simp add: processInput_def t1 s1 t2 s2 boomManager_def boomCommand_def
          rejectCommand_def arrayIndexOf_iff Let_def)
      (simp add: str_def)
qed

end
